theory Spec2Isabelle
  imports Complex_Main "HOL-Library.Sublist"
begin

section \<open>Field model (types.ts, constants.ts)\<close>

text \<open>
  A TypeScript \<open>number\<close> is an IEEE double. The only arithmetic the form performs on
  one is the comparison \<open>> 500\<close>, so a finite double is represented by the real it
  denotes and the three non-finite values are kept apart.
\<close>

datatype number = Finite real | NaN | PosInfinity | NegInfinity

text \<open>The relational operator \<open>a > b\<close> on numbers: false whenever an operand is NaN.\<close>

fun number_gt :: "number \<Rightarrow> number \<Rightarrow> bool" where
  "number_gt (Finite a) (Finite b) = (b < a)"
| "number_gt PosInfinity (Finite b) = True"
| "number_gt PosInfinity NegInfinity = True"
| "number_gt (Finite a) NegInfinity = True"
| "number_gt _ _ = False"

text \<open>The field type \<open>number | ''\<close> of \<open>ExpenseData.amount\<close>.\<close>

datatype amount = AmountEmpty | AmountNumber number

text \<open>\<open>Number(x)\<close> on that type: the empty string converts to 0.\<close>

fun Number :: "amount \<Rightarrow> number" where
  "Number AmountEmpty = Finite 0"
| "Number (AmountNumber n) = n"

text \<open>
  The string enum \<open>ExpenseCategory\<close>: at run time its members are these four strings,
  and the field type \<open>ExpenseCategory | ''\<close> is a string.
\<close>

definition FOOD_EXPENSE :: string where "FOOD_EXPENSE = ''Food Expense''"
definition TRAVEL :: string where "TRAVEL = ''Travel''"
definition ACCOMMODATION :: string where "ACCOMMODATION = ''Accommodation''"
definition OTHER_OFFICE_EXPENSES :: string where
  "OTHER_OFFICE_EXPENSES = ''Other office expenses''"

definition EXPENSE_CATEGORIES :: "string list" where
  "EXPENSE_CATEGORIES = [FOOD_EXPENSE, TRAVEL, ACCOMMODATION, OTHER_OFFICE_EXPENSES]"

definition N8N_WEBHOOK_URL :: string where
  "N8N_WEBHOOK_URL =
     ''https://snehalpapnoi9.app.n8n.cloud/webhook/41a87729-88be-4791-86ef-708e5d1ee553''"

record ExpenseData =
  expenseCategory :: string
  project :: string
  expenseTitle :: string
  expenseDate :: string
  currency :: string
  amount :: amount
  comment :: string
  employeeName :: string
  employeeId :: string

datatype SubmissionStatus = IDLE | SUBMITTING | SUCCESS | ERROR

text \<open>The part of a browser \<open>File\<close> that the form reads.\<close>

record File =
  file_name :: string
  file_type :: string
  file_size :: nat

text \<open>
  \<open>emptyExpenseState\<close> (App.tsx, lines 14-24). The default date is the day on which the
  module was loaded, \<open>new Date().toISOString().split('T')[0]\<close>, taken as a parameter.
\<close>

definition emptyExpenseState :: "string \<Rightarrow> ExpenseData" where
  "emptyExpenseState today =
     \<lparr> expenseCategory = '''',
       project = '''',
       expenseTitle = '''',
       expenseDate = today,
       currency = ''INR'',
       amount = AmountEmpty,
       comment = '''',
       employeeName = ''Snehal Papnoi'',
       employeeId = ''snehalpapnoi9@gmail.com'' \<rparr>"

section \<open>Validator (App.tsx, validateForm)\<close>

text \<open>\<open>Array.prototype.join\<close> on an array of strings.\<close>

fun join :: "string \<Rightarrow> string list \<Rightarrow> string" where
  "join sep [] = ''''"
| "join sep [x] = x"
| "join sep (x # y # ys) = x @ sep @ join sep (y # ys)"

text \<open>
  The array \<open>errors\<close> as it stands at line 178, after the seven conditional pushes of
  lines 165-176. \<open>!s\<close> on a string is \<open>s = ''\<close>; \<open>!receiptFile\<close> is \<open>receiptFile = null\<close>.
  The test \<open>amount == null\<close> of line 169 has no inhabitant in the declared field type.
\<close>

definition validateForm_errors :: "ExpenseData \<Rightarrow> File option \<Rightarrow> string list" where
  "validateForm_errors expenseData receiptFile =
     (let errors = [];
          errors = (if expenseCategory expenseData = ''''
                    then errors @ [''Expense Category''] else errors);
          errors = (if project expenseData = ''''
                    then errors @ [''Project / Cost Center''] else errors);
          errors = (if expenseTitle expenseData = ''''
                    then errors @ [''Expense Title''] else errors);
          errors = (if expenseDate expenseData = ''''
                    then errors @ [''Expense Date''] else errors);
          errors = (if amount expenseData = AmountEmpty
                    then errors @ [''Amount''] else errors);
          errors = (if comment expenseData = ''''
                    then errors @ [''Comment''] else errors);
          errors = (if number_gt (Number (amount expenseData)) (Finite 500)
                       \<and> receiptFile = None
                    then errors @ [''Upload Receipt''] else errors)
      in errors)"

definition validateForm :: "ExpenseData \<Rightarrow> File option \<Rightarrow> string option" where
  "validateForm expenseData receiptFile =
     (let errors = validateForm_errors expenseData receiptFile
      in if length errors > 0
         then Some (''Please complete all required fields: '' @ join '', '' errors @ ''.'')
         else None)"

text \<open>
  The validator's rules as the specification words them: six presence checks in a fixed
  order, each paired with the label of its violation, then the receipt rule.
\<close>

definition presence_checks :: "ExpenseData \<Rightarrow> (bool \<times> string) list" where
  "presence_checks r =
     [ (expenseCategory r = '''', ''Expense Category''),
       (project r = '''', ''Project / Cost Center''),
       (expenseTitle r = '''', ''Expense Title''),
       (expenseDate r = '''', ''Expense Date''),
       (amount r = AmountEmpty, ''Amount''),
       (comment r = '''', ''Comment'') ]"

definition violations_spec :: "ExpenseData \<Rightarrow> bool \<Rightarrow> string list" where
  "violations_spec r hasAttachment =
     map snd (filter fst (presence_checks r)) @
     (if number_gt (Number (amount r)) (Finite 500) \<and> \<not> hasAttachment
      then [''Upload Receipt''] else [])"

text \<open>A record on which every presence check passes.\<close>

definition required_fields_set :: "ExpenseData \<Rightarrow> bool" where
  "required_fields_set r \<longleftrightarrow>
     expenseCategory r \<noteq> '''' \<and> project r \<noteq> '''' \<and> expenseTitle r \<noteq> '''' \<and>
     expenseDate r \<noteq> '''' \<and> amount r \<noteq> AmountEmpty \<and> comment r \<noteq> ''''"

section \<open>AI extraction adapter (services/geminiService.ts)\<close>

text \<open>
  \<open>s.split(sep)\<close> for a one-character separator: the segments between the occurrences of
  the separator; never empty, \<open>''.split(sep)\<close> is \<open>['']\<close>.
\<close>

fun split :: "char \<Rightarrow> string \<Rightarrow> string list" where
  "split sep [] = [[]]"
| "split sep (c # cs) =
     (if c = sep then [] # split sep cs
      else (case split sep cs of
              [] \<Rightarrow> [[c]]
            | seg # segs \<Rightarrow> (c # seg) # segs))"

text \<open>Indexing an array: \<open>undefined\<close> (None) out of range.\<close>

fun at_index :: "'a list \<Rightarrow> nat \<Rightarrow> 'a option" where
  "at_index [] i = None"
| "at_index (x # xs) 0 = Some x"
| "at_index (x # xs) (Suc i) = at_index xs i"

text \<open>
  \<open>s.split('T')[0]\<close> (line 93). Element 0 always exists, so the default of the
  \<open>case\<close> is never taken.
\<close>

definition split_T_0 :: "string \<Rightarrow> string" where
  "split_T_0 s = (case at_index (split (CHR ''T'') s) 0 of Some seg \<Rightarrow> seg | None \<Rightarrow> '''')"

text \<open>
  The string methods of the platform that the adapter calls. Their white-space class and
  their case mapping range over all of Unicode and are no part of this repository, so
  they are parameters: \<open>trim\<close> is \<open>String.prototype.trim\<close>, \<open>toUpperCase\<close> is
  \<open>String.prototype.toUpperCase\<close>, and \<open>trimStart\<close> is \<open>String.prototype.trimStart\<close>, which
  removes the longest leading run of white space and line terminators, the characters
  that the class \<open>\s\<close> of a regular expression matches.
\<close>

record StringMethods =
  trim :: "string \<Rightarrow> string"
  trimStart :: "string \<Rightarrow> string"
  toUpperCase :: "string \<Rightarrow> string"

text \<open>
  \<open>text.replace(/^```json\s*|```$/g, '')\<close> (line 83): an opening fence at the very start,
  with the white space after it, and a closing fence at the very end are removed.
\<close>

definition strip_fence :: "StringMethods \<Rightarrow> string \<Rightarrow> string" where
  "strip_fence js t =
     (let t1 = (if prefix ''```json'' t then trimStart js (drop 7 t) else t)
      in if suffix ''```'' t1 then take (length t1 - 3) t1 else t1)"

text \<open>
  A value returned by \<open>JSON.parse\<close>. The properties of an object are kept as an
  association list with one entry per key.
\<close>

datatype json =
    JNull
  | JBool bool
  | JNumber number
  | JString string
  | JArray "json list"
  | JObject "(string \<times> json) list"

text \<open>
  Reading \<open>parsed.key\<close> for one of the seven keys of the schema on a value that is not
  \<open>null\<close>: the entry of an object, \<open>undefined\<close> (None) when the object lacks the key
  and on every number, boolean, string and array (none of the seven names is a property
  of their prototypes). On \<open>null\<close> the read throws; \<open>sanitize\<close> handles that case.
\<close>

fun property :: "json \<Rightarrow> string \<Rightarrow> json option" where
  "property (JObject kvs) key = map_of kvs key"
| "property _ key = None"

text \<open>Truthiness of a value that may be \<open>undefined\<close>.\<close>

fun truthy :: "json option \<Rightarrow> bool" where
  "truthy None = False"
| "truthy (Some JNull) = False"
| "truthy (Some (JBool b)) = b"
| "truthy (Some (JNumber n)) = (n \<noteq> Finite 0 \<and> n \<noteq> NaN)"
| "truthy (Some (JString s)) = (s \<noteq> '''')"
| "truthy (Some (JArray xs)) = True"
| "truthy (Some (JObject kvs)) = True"

text \<open>\<open>typeof v === 'string'\<close> and \<open>typeof v === 'number'\<close>, returning the value when they hold.\<close>

fun typeof_string :: "json option \<Rightarrow> string option" where
  "typeof_string (Some (JString s)) = Some s"
| "typeof_string _ = None"

fun typeof_number :: "json option \<Rightarrow> number option" where
  "typeof_number (Some (JNumber n)) = Some n"
| "typeof_number _ = None"

text \<open>
  \<open>EXPENSE_CATEGORIES.includes(v)\<close>: the array holds strings only, so a value is found
  exactly when it is a string equal to one of them.
\<close>

definition EXPENSE_CATEGORIES_includes :: "json option \<Rightarrow> bool" where
  "EXPENSE_CATEGORIES_includes v =
     (case typeof_string v of Some s \<Rightarrow> s \<in> set EXPENSE_CATEGORIES | None \<Rightarrow> False)"

text \<open>\<open>Partial<ExpenseData>\<close>: every key of \<open>ExpenseData\<close> present (Some) or absent (None).\<close>

record PartialExpenseData =
  opt_expenseCategory :: "string option"
  opt_project :: "string option"
  opt_expenseTitle :: "string option"
  opt_expenseDate :: "string option"
  opt_currency :: "string option"
  opt_amount :: "amount option"
  opt_comment :: "string option"
  opt_employeeName :: "string option"
  opt_employeeId :: "string option"

definition empty_partial :: PartialExpenseData where
  "empty_partial =
     \<lparr> opt_expenseCategory = None, opt_project = None, opt_expenseTitle = None,
       opt_expenseDate = None, opt_currency = None, opt_amount = None,
       opt_comment = None, opt_employeeName = None, opt_employeeId = None \<rparr>"

text \<open>A JavaScript \<open>Error\<close> with its message.\<close>

datatype error = Error string

text \<open>
  Lines 86-98 of \<open>parseJsonResponse\<close>, on the parsed value. The first property read of a
  \<open>null\<close> throws a TypeError, which the enclosing \<open>try\<close> catches; \<open>sanitize\<close> returns
  None there.
\<close>

definition sanitize :: "StringMethods \<Rightarrow> json \<Rightarrow> PartialExpenseData option" where
  "sanitize js parsed =
     (if parsed = JNull then None
      else
        let sanitizedData = empty_partial;
            sanitizedData =
              (if truthy (property parsed ''expenseCategory'')
                  \<and> EXPENSE_CATEGORIES_includes (property parsed ''expenseCategory'')
               then sanitizedData\<lparr>opt_expenseCategory :=
                      typeof_string (property parsed ''expenseCategory'')\<rparr>
               else sanitizedData);
            sanitizedData =
              (case typeof_string (property parsed ''project'') of
                 Some s \<Rightarrow> sanitizedData\<lparr>opt_project := Some s\<rparr>
               | None \<Rightarrow> sanitizedData);
            sanitizedData =
              (case typeof_string (property parsed ''expenseTitle'') of
                 Some s \<Rightarrow> sanitizedData\<lparr>opt_expenseTitle := Some s\<rparr>
               | None \<Rightarrow> sanitizedData);
            sanitizedData =
              (case typeof_string (property parsed ''expenseDate'') of
                 Some s \<Rightarrow> sanitizedData\<lparr>opt_expenseDate := Some (split_T_0 s)\<rparr>
               | None \<Rightarrow> sanitizedData);
            sanitizedData =
              (case typeof_string (property parsed ''currency'') of
                 Some s \<Rightarrow> sanitizedData\<lparr>opt_currency := Some (toUpperCase js s)\<rparr>
               | None \<Rightarrow> sanitizedData);
            sanitizedData =
              (case typeof_number (property parsed ''amount'') of
                 Some n \<Rightarrow> sanitizedData\<lparr>opt_amount := Some (AmountNumber n)\<rparr>
               | None \<Rightarrow> sanitizedData);
            sanitizedData =
              (case typeof_string (property parsed ''comment'') of
                 Some s \<Rightarrow> sanitizedData\<lparr>opt_comment := Some s\<rparr>
               | None \<Rightarrow> sanitizedData)
        in Some sanitizedData)"

text \<open>
  \<open>GenerateContentResponse\<close>: its getter \<open>text\<close> yields a string or \<open>undefined\<close>.
\<close>

record GenerateContentResponse =
  response_text :: "string option"

definition unparseable :: error where
  "unparseable =
     Error ''Could not understand the AI's response. Please try again or enter manually.''"

text \<open>
  \<open>parseJsonResponse\<close> (lines 79-103). The string methods \<open>js\<close> and \<open>JSON.parse\<close> are the
  platform's, taken as parameters; \<open>JSON.parse\<close> is None when it throws a SyntaxError. Everything thrown inside the \<open>try\<close>
  (\<open>trim\<close> of an undefined text, the SyntaxError, the property read of \<open>null\<close>) is caught
  and replaced by the one error of line 101.
\<close>

definition parseJsonResponse ::
  "StringMethods \<Rightarrow> (string \<Rightarrow> json option) \<Rightarrow> GenerateContentResponse
     \<Rightarrow> error + PartialExpenseData" where
  "parseJsonResponse js JSON_parse response =
     (case response_text response of
        None \<Rightarrow> Inl unparseable
      | Some t \<Rightarrow>
          let text = trim js t;
              jsonString = strip_fence js text
          in (case JSON_parse jsonString of
                None \<Rightarrow> Inl unparseable
              | Some parsed \<Rightarrow>
                  (case sanitize js parsed of
                     None \<Rightarrow> Inl unparseable
                   | Some sanitizedData \<Rightarrow> Inr sanitizedData)))"






section \<open>Form controller state (App.tsx)\<close>

text \<open>
  The state hooks of \<open>App\<close> (lines 36-46), together with the delays of the \<open>setTimeout\<close>
  callbacks that are scheduled and have not run yet.
\<close>

record AppState =
  expenseData :: ExpenseData
  receiptFile :: "File option"
  receiptPreview :: "string option"
  naturalLanguageQuery :: string
  isAiLoading :: bool
  aiError :: "string option"
  submissionStatus :: SubmissionStatus
  submissionError :: "string option"
  updatedFields :: "string set"
  pendingTimeouts :: "nat list"

definition initialState :: "string \<Rightarrow> AppState" where
  "initialState today =
     \<lparr> expenseData = emptyExpenseState today,
       receiptFile = None,
       receiptPreview = None,
       naturalLanguageQuery = '''',
       isAiLoading = False,
       aiError = None,
       submissionStatus = IDLE,
       submissionError = None,
       updatedFields = {},
       pendingTimeouts = [] \<rparr>"

definition resetForm :: "string \<Rightarrow> AppState \<Rightarrow> AppState" where
  "resetForm today st =
     st\<lparr> expenseData := emptyExpenseState today,
         receiptFile := None,
         receiptPreview := None,
         naturalLanguageQuery := '''',
         aiError := None \<rparr>"


section \<open>Merge policy (App.tsx, handleAiParseSuccess)\<close>

text \<open>
  \<open>Object.keys\<close> of a partial record: the names of the keys that are present. The callers
  use its length and the set of its elements only, so the order chosen here is immaterial.
\<close>

definition Object_keys :: "PartialExpenseData \<Rightarrow> string list" where
  "Object_keys p =
     (if opt_expenseCategory p \<noteq> None then [''expenseCategory''] else []) @
     (if opt_project p \<noteq> None then [''project''] else []) @
     (if opt_expenseTitle p \<noteq> None then [''expenseTitle''] else []) @
     (if opt_expenseDate p \<noteq> None then [''expenseDate''] else []) @
     (if opt_currency p \<noteq> None then [''currency''] else []) @
     (if opt_amount p \<noteq> None then [''amount''] else []) @
     (if opt_comment p \<noteq> None then [''comment''] else []) @
     (if opt_employeeName p \<noteq> None then [''employeeName''] else []) @
     (if opt_employeeId p \<noteq> None then [''employeeId''] else [])"

text \<open>The object spread \<open>{ ...prev, ...rest }\<close>: a key present in \<open>rest\<close> wins.\<close>

definition spread :: "ExpenseData \<Rightarrow> PartialExpenseData \<Rightarrow> ExpenseData" where
  "spread prev rest =
     \<lparr> expenseCategory =
         (case opt_expenseCategory rest of Some v \<Rightarrow> v | None \<Rightarrow> expenseCategory prev),
       project = (case opt_project rest of Some v \<Rightarrow> v | None \<Rightarrow> project prev),
       expenseTitle =
         (case opt_expenseTitle rest of Some v \<Rightarrow> v | None \<Rightarrow> expenseTitle prev),
       expenseDate =
         (case opt_expenseDate rest of Some v \<Rightarrow> v | None \<Rightarrow> expenseDate prev),
       currency = (case opt_currency rest of Some v \<Rightarrow> v | None \<Rightarrow> currency prev),
       amount = (case opt_amount rest of Some v \<Rightarrow> v | None \<Rightarrow> amount prev),
       comment = (case opt_comment rest of Some v \<Rightarrow> v | None \<Rightarrow> comment prev),
       employeeName =
         (case opt_employeeName rest of Some v \<Rightarrow> v | None \<Rightarrow> employeeName prev),
       employeeId =
         (case opt_employeeId rest of Some v \<Rightarrow> v | None \<Rightarrow> employeeId prev) \<rparr>"

text \<open>
  \<open>handleAiParseSuccess\<close> (lines 70-84). The destructuring of line 74 removes the two
  identity keys; the callback passed to \<open>setTimeout\<close> is recorded with its delay.
\<close>

definition handleAiParseSuccess :: "PartialExpenseData \<Rightarrow> AppState \<Rightarrow> AppState" where
  "handleAiParseSuccess parsedData st =
     (if length (Object_keys parsedData) = 0 then st
      else
        let restOfParsedData = parsedData\<lparr>opt_employeeName := None, opt_employeeId := None\<rparr>;
            st = st\<lparr>expenseData := spread (expenseData st) restOfParsedData\<rparr>;
            keys = set (Object_keys restOfParsedData);
            st = st\<lparr>updatedFields := keys\<rparr>;
            st = st\<lparr>pendingTimeouts := pendingTimeouts st @ [2500]\<rparr>
        in st)"

text \<open>The scheduled callback of lines 81-83, when the oldest pending one runs.\<close>

definition highlightTimeout :: "AppState \<Rightarrow> AppState" where
  "highlightTimeout st =
     (case pendingTimeouts st of
        [] \<Rightarrow> st
      | d # ds \<Rightarrow> st\<lparr>updatedFields := {}, pendingTimeouts := ds\<rparr>)"

section \<open>Receipt upload (App.tsx, handleFileChange and handleOcrParse)\<close>






section \<open>Submission adapter (services/n8nService.ts)\<close>

text \<open>\<open>s.includes(sub)\<close>: \<open>sub\<close> occurs in \<open>s\<close> as a contiguous piece.\<close>

fun string_includes :: "string \<Rightarrow> string \<Rightarrow> bool" where
  "string_includes [] sub = (sub = [])"
| "string_includes (c # cs) sub = (prefix sub (c # cs) \<or> string_includes cs sub)"

datatype form_value = FormString string | FormFile File string

record Request =
  request_url :: string
  request_method :: string
  request_body :: "(string \<times> form_value) list"
  request_mode :: string

text \<open>
  What the browser supplies: the conversion of a number to a string, the current time in
  ISO format, and for each request whether \<open>fetch\<close> resolves (True) or rejects (False).
\<close>

record Browser =
  String_of_number :: "number \<Rightarrow> string"
  now_toISOString :: string
  fetch_resolves :: "Request \<Rightarrow> bool"

text \<open>
  \<open>Object.entries(data)\<close> with each value passed through \<open>String\<close>, in the key order of
  \<open>emptyExpenseState\<close> (the object every record descends from by spreading).
\<close>

definition String_of_amount :: "Browser \<Rightarrow> amount \<Rightarrow> string" where
  "String_of_amount b a =
     (case a of AmountEmpty \<Rightarrow> '''' | AmountNumber n \<Rightarrow> String_of_number b n)"

definition Object_entries :: "Browser \<Rightarrow> ExpenseData \<Rightarrow> (string \<times> string) list" where
  "Object_entries b d =
     [ (''employeeName'', employeeName d),
       (''employeeId'', employeeId d),
       (''expenseCategory'', expenseCategory d),
       (''project'', project d),
       (''expenseTitle'', expenseTitle d),
       (''expenseDate'', expenseDate d),
       (''currency'', currency d),
       (''amount'', String_of_amount b (amount d)),
       (''comment'', comment d) ]"

definition not_configured :: error where
  "not_configured =
     Error ''Submission failed. The n8n webhook URL has not been configured in 'constants.ts'.''"

definition could_not_submit :: error where
  "could_not_submit =
     Error (''Could not submit your expense. Please check your network connection '' @
            ''and webhook configuration.'')"

text \<open>
  \<open>submitExpense\<close> (lines 154-197), with the webhook URL of constants.ts as a parameter.
  The result is paired with the calls made to \<open>fetch\<close>, in order.
\<close>

definition submitExpense ::
  "Browser \<Rightarrow> string \<Rightarrow> ExpenseData \<Rightarrow> File option \<Rightarrow> (error + unit) \<times> Request list" where
  "submitExpense b webhook_url data receipt =
     (if string_includes webhook_url ''n8n.example.com'' then (Inl not_configured, [])
      else
        let formData = map (\<lambda>(key, v). (key, FormString v)) (Object_entries b data);
            formData = formData @ [(''timestamp'', FormString (now_toISOString b))];
            formData = (case receipt of
                          Some file \<Rightarrow> formData @ [(''receipt'', FormFile file (file_name file))]
                        | None \<Rightarrow> formData);
            formData = formData @ [(''status'', FormString ''Submitted'')];
            request = \<lparr> request_url = webhook_url, request_method = ''POST'',
                        request_body = formData, request_mode = ''no-cors'' \<rparr>
        in if fetch_resolves b request then (Inr (), [request])
           else (Inl could_not_submit, [request]))"

section \<open>Submission (App.tsx, handleSubmit)\<close>

text \<open>
  \<open>handleSubmit\<close> (lines 184-203). The result lists the states the handler commits, in
  order (one when validation fails; otherwise the state at the \<open>await\<close> and the state
  after it), and the calls made to \<open>fetch\<close>. A validation message is a string, and
  \<open>if (validationError)\<close> takes it when it is not empty.
\<close>

definition handleSubmit ::
  "Browser \<Rightarrow> string \<Rightarrow> string \<Rightarrow> AppState \<Rightarrow> AppState list \<times> Request list" where
  "handleSubmit b webhook_url today st =
     (let validationError = validateForm (expenseData st) (receiptFile st)
      in if validationError \<noteq> None \<and> validationError \<noteq> Some ''''
         then ([st\<lparr>submissionError := validationError, submissionStatus := ERROR\<rparr>], [])
         else
           let st1 = st\<lparr>submissionStatus := SUBMITTING, submissionError := None\<rparr>;
               (outcome, requests) =
                  submitExpense b webhook_url (expenseData st) (receiptFile st)
           in (case outcome of
                 Inr u \<Rightarrow>
                   ([st1, resetForm today (st1\<lparr>submissionStatus := SUCCESS\<rparr>)], requests)
               | Inl (Error message) \<Rightarrow>
                   ([st1, st1\<lparr>submissionError := Some message, submissionStatus := ERROR\<rparr>],
                    requests)))"

section \<open>The date format of the specification\<close>

text \<open>The date format \<open>YYYY-MM-DD\<close>: four digits, a hyphen, two digits, a hyphen, two digits.\<close>

definition is_digit :: "char \<Rightarrow> bool" where
  "is_digit c \<longleftrightarrow> c \<in> set ''0123456789''"

definition is_YYYY_MM_DD :: "string \<Rightarrow> bool" where
  "is_YYYY_MM_DD s \<longleftrightarrow>
     length s = 10 \<and>
     list_all is_digit (take 4 s) \<and> take 1 (drop 4 s) = ''-'' \<and>
     list_all is_digit (take 2 (drop 5 s)) \<and> take 1 (drop 7 s) = ''-'' \<and>
     list_all is_digit (drop 8 s)"

section \<open>Example data\<close>








text \<open>A response whose date is a string in another format.\<close>

definition slash_date_response :: json where
  "slash_date_response = JObject [ (''expenseDate'', JString ''10/07/2024'') ]"




text \<open>A 2 MB JPEG.\<close>

definition jpeg_2MB :: File where
  "jpeg_2MB = \<lparr> file_name = ''receipt.jpg'', file_type = ''image/jpeg'',
               file_size = 2 * 1024 * 1024 \<rparr>"

text \<open>A suggestion that holds an identity field and nothing else.\<close>

definition identity_only_suggestion :: PartialExpenseData where
  "identity_only_suggestion = empty_partial\<lparr>opt_employeeName := Some ''Mallory''\<rparr>"

text \<open>A suggestion with an identity field, an amount and a title.\<close>

definition mixed_suggestion :: PartialExpenseData where
  "mixed_suggestion =
     empty_partial\<lparr> opt_employeeName := Some ''Mallory'',
                    opt_employeeId := Some ''mallory@example.com'',
                    opt_amount := Some (AmountNumber (Finite 42)),
                    opt_expenseTitle := Some ''Cafe Aroma'' \<rparr>"

text \<open>A record on which every required field is set, with a given amount.\<close>

definition complete_record :: "real \<Rightarrow> ExpenseData" where
  "complete_record a =
     \<lparr> expenseCategory = TRAVEL,
       project = ''Apollo'',
       expenseTitle = ''Taxi'',
       expenseDate = ''2024-07-10'',
       currency = ''INR'',
       amount = AmountNumber (Finite a),
       comment = ''Airport transfer'',
       employeeName = ''Snehal Papnoi'',
       employeeId = ''snehalpapnoi9@gmail.com'' \<rparr>"

text \<open>A browser in which every \<open>fetch\<close> resolves.\<close>

definition online_browser :: Browser where
  "online_browser =
     \<lparr> String_of_number = (\<lambda>n. ''0''),
       now_toISOString = ''2024-07-10T09:30:00.000Z'',
       fetch_resolves = (\<lambda>request. True) \<rparr>"

section \<open>Properties of the validator\<close>

lemma validateForm_errors_eq_spec:
  "validateForm_errors d f = violations_spec d (f \<noteq> None)"
  by (simp add: validateForm_errors_def violations_spec_def presence_checks_def Let_def)

lemma validateForm_None_iff:
  "validateForm d f = None \<longleftrightarrow> validateForm_errors d f = []"
  by (simp add: validateForm_def Let_def)

text \<open>
  C2. The validator evaluates its six presence checks independently and collects every
  violation, in the order category, project, title, date, amount, comment (followed by
  the receipt rule); a numeric amount, zero included, passes the amount check and the
  unset amount fails it; the result is a message (Invalid) exactly when the collected
  list is non-empty.
\<close>

theorem validateForm_collects_all_violations:
  "validateForm_errors d f = violations_spec d (f \<noteq> None)
   \<and> (amount d = AmountNumber (Finite 0) \<longrightarrow> ''Amount'' \<notin> set (validateForm_errors d f))
   \<and> (amount d = AmountEmpty \<longrightarrow> ''Amount'' \<in> set (validateForm_errors d f))
   \<and> ((\<exists>m. validateForm d f = Some m) \<longleftrightarrow> validateForm_errors d f \<noteq> [])"
proof -
  have order: "validateForm_errors d f = violations_spec d (f \<noteq> None)"
    by (rule validateForm_errors_eq_spec)
  have zero: "amount d = AmountNumber (Finite 0) \<longrightarrow> ''Amount'' \<notin> set (validateForm_errors d f)"
    by (simp add: order violations_spec_def presence_checks_def)
  have unset: "amount d = AmountEmpty \<longrightarrow> ''Amount'' \<in> set (validateForm_errors d f)"
    by (simp add: order violations_spec_def presence_checks_def)
  have invalid: "(\<exists>m. validateForm d f = Some m) \<longleftrightarrow> validateForm_errors d f \<noteq> []"
    using validateForm_None_iff [of d f] by (cases "validateForm d f") simp_all
  from order zero unset invalid show ?thesis by blast
qed

text \<open>
  The example of the specification: category, project, title and comment empty, the date
  set, amount 0, no attachment. Exactly those four violations are collected, in order.
\<close>

theorem validateForm_collects_all_violations_witness:
  "validateForm_errors
     ((emptyExpenseState ''2024-07-10'')\<lparr>amount := AmountNumber (Finite 0)\<rparr>) None
     = [''Expense Category'', ''Project / Cost Center'', ''Expense Title'', ''Comment'']
   \<and> ''Amount'' \<notin> set (validateForm_errors
        ((emptyExpenseState ''2024-07-10'')\<lparr>amount := AmountNumber (Finite 0)\<rparr>) None)
   \<and> ''Amount'' \<in> set (validateForm_errors (emptyExpenseState ''2024-07-10'') None)
   \<and> (\<exists>m. validateForm (emptyExpenseState ''2024-07-10'') None = Some m)"
  using validateForm_collects_all_violations
          [of "(emptyExpenseState ''2024-07-10'')\<lparr>amount := AmountNumber (Finite 0)\<rparr>" None]
        validateForm_collects_all_violations [of "emptyExpenseState ''2024-07-10''" None]
  by (simp add: emptyExpenseState_def violations_spec_def presence_checks_def)

text \<open>
  C3. The receipt violation is appended exactly when the numeric amount strictly exceeds
  500 and no attachment is present. On a record whose required fields are all set and
  whose amount is the finite number a, the validator reports the receipt violation alone
  when a > 500 and there is no attachment, and passes otherwise: 600 without attachment
  is Invalid, 600 with attachment is Valid, 500 without attachment is Valid.
\<close>

theorem validateForm_receipt_rule:
  "(''Upload Receipt'' \<in> set (validateForm_errors d f)
      \<longleftrightarrow> number_gt (Number (amount d)) (Finite 500) \<and> f = None)
   \<and> (required_fields_set d \<longrightarrow> amount d = AmountNumber (Finite a) \<longrightarrow>
        validateForm_errors d f = (if 500 < a \<and> f = None then [''Upload Receipt''] else [])
        \<and> validateForm d f =
            (if 500 < a \<and> f = None
             then Some ''Please complete all required fields: Upload Receipt.''
             else None))"
proof -
  have iff: "''Upload Receipt'' \<in> set (validateForm_errors d f)
      \<longleftrightarrow> number_gt (Number (amount d)) (Finite 500) \<and> f = None"
    by (simp add: validateForm_errors_eq_spec violations_spec_def presence_checks_def)
  have full: "validateForm_errors d f = (if 500 < a \<and> f = None then [''Upload Receipt''] else [])
        \<and> validateForm d f =
            (if 500 < a \<and> f = None
             then Some ''Please complete all required fields: Upload Receipt.''
             else None)"
    if "required_fields_set d" "amount d = AmountNumber (Finite a)"
    using that
    by (simp add: validateForm_def validateForm_errors_eq_spec violations_spec_def
        presence_checks_def required_fields_set_def)
  from iff full show ?thesis by blast
qed

theorem validateForm_receipt_rule_witness:
  "required_fields_set (complete_record 600)
   \<and> ''Upload Receipt'' \<in> set (validateForm_errors (complete_record 600) None)
   \<and> validateForm (complete_record 600) None
       = Some ''Please complete all required fields: Upload Receipt.''
   \<and> validateForm (complete_record 600) (Some jpeg_2MB) = None
   \<and> validateForm (complete_record 500) None = None"
  using validateForm_receipt_rule [of "complete_record 600" None 600]
        validateForm_receipt_rule [of "complete_record 600" "Some jpeg_2MB" 600]
        validateForm_receipt_rule [of "complete_record 500" None 500]
  by (simp add: complete_record_def required_fields_set_def TRAVEL_def)

section \<open>Properties of the date normalisation\<close>

lemma at_index_split_0: "at_index (split sep s) 0 = Some (takeWhile (\<lambda>c. c \<noteq> sep) s)"
  by (induction s) (auto split: list.splits)

lemma split_T_0_takeWhile: "split_T_0 s = takeWhile (\<lambda>c. c \<noteq> CHR ''T'') s"
  by (simp add: split_T_0_def at_index_split_0)

text \<open>
  C10. The date normalisation of the adapter, \<open>s.split('T')[0]\<close>, is idempotent, and it
  returns a string that holds no \<open>T\<close> unchanged.
\<close>

theorem split_T_0_idempotent:
  "split_T_0 (split_T_0 s) = split_T_0 s \<and> (CHR ''T'' \<notin> set s \<longrightarrow> split_T_0 s = s)"
proof -
  have "takeWhile (\<lambda>c. c \<noteq> CHR ''T'') s = s" if "CHR ''T'' \<notin> set s"
    using that by (induction s) auto
  then show ?thesis
    by (simp add: split_T_0_takeWhile)
qed

theorem split_T_0_idempotent_witness:
  "split_T_0 (split_T_0 ''2024-07-10T00:00:00Z'') = split_T_0 ''2024-07-10T00:00:00Z''
   \<and> split_T_0 ''2024-07-10T00:00:00Z'' = ''2024-07-10''
   \<and> CHR ''T'' \<notin> set ''2024-07-10'' \<and> split_T_0 ''2024-07-10'' = ''2024-07-10''"
  using split_T_0_idempotent [of "''2024-07-10T00:00:00Z''"]
        split_T_0_idempotent [of "''2024-07-10''"]
  by (simp add: split_T_0_takeWhile)

section \<open>Properties of the merge\<close>

lemma Object_keys_Nil_iff:
  "Object_keys p = [] \<longleftrightarrow>
     opt_expenseCategory p = None \<and> opt_project p = None \<and> opt_expenseTitle p = None \<and>
     opt_expenseDate p = None \<and> opt_currency p = None \<and> opt_amount p = None \<and>
     opt_comment p = None \<and> opt_employeeName p = None \<and> opt_employeeId p = None"
  by (simp add: Object_keys_def)

lemma spread_no_keys: "Object_keys rest = [] \<Longrightarrow> spread prev rest = prev"
  by (simp add: Object_keys_Nil_iff spread_def)

text \<open>
  C1. Merging a suggestion leaves \<open>employeeName\<close> and \<open>employeeId\<close> of the record as they
  were, whatever the suggestion holds for them, and every other field present in the
  suggestion replaces the field of the record, whatever the record held.
\<close>

theorem handleAiParseSuccess_merge:
  "employeeName (expenseData (handleAiParseSuccess s st)) = employeeName (expenseData st)
   \<and> employeeId (expenseData (handleAiParseSuccess s st)) = employeeId (expenseData st)
   \<and> (\<forall>v. opt_expenseCategory s = Some v \<longrightarrow>
          expenseCategory (expenseData (handleAiParseSuccess s st)) = v)
   \<and> (\<forall>v. opt_project s = Some v \<longrightarrow> project (expenseData (handleAiParseSuccess s st)) = v)
   \<and> (\<forall>v. opt_expenseTitle s = Some v \<longrightarrow>
          expenseTitle (expenseData (handleAiParseSuccess s st)) = v)
   \<and> (\<forall>v. opt_expenseDate s = Some v \<longrightarrow>
          expenseDate (expenseData (handleAiParseSuccess s st)) = v)
   \<and> (\<forall>v. opt_currency s = Some v \<longrightarrow> currency (expenseData (handleAiParseSuccess s st)) = v)
   \<and> (\<forall>v. opt_amount s = Some v \<longrightarrow> amount (expenseData (handleAiParseSuccess s st)) = v)
   \<and> (\<forall>v. opt_comment s = Some v \<longrightarrow> comment (expenseData (handleAiParseSuccess s st)) = v)"
proof (cases "Object_keys s = []")
  case True
  then show ?thesis
    by (simp add: handleAiParseSuccess_def Object_keys_Nil_iff)
next
  case False
  then show ?thesis
    by (simp add: handleAiParseSuccess_def Let_def spread_def)
qed

theorem handleAiParseSuccess_merge_witness:
  "employeeName (expenseData (handleAiParseSuccess mixed_suggestion (initialState ''2024-07-10'')))
     = ''Snehal Papnoi''
   \<and> employeeId (expenseData (handleAiParseSuccess mixed_suggestion (initialState ''2024-07-10'')))
     = ''snehalpapnoi9@gmail.com''
   \<and> opt_employeeName mixed_suggestion = Some ''Mallory''
   \<and> opt_amount mixed_suggestion = Some (AmountNumber (Finite 42))
   \<and> amount (expenseData (handleAiParseSuccess mixed_suggestion (initialState ''2024-07-10'')))
     = AmountNumber (Finite 42)
   \<and> expenseTitle (expenseData (handleAiParseSuccess mixed_suggestion (initialState ''2024-07-10'')))
     = ''Cafe Aroma''"
  using handleAiParseSuccess_merge [of mixed_suggestion "initialState ''2024-07-10''"]
  by (simp add: mixed_suggestion_def empty_partial_def initialState_def emptyExpenseState_def)

text \<open>
  C5, as stated, fails on a suggestion that holds identity fields only: it is empty
  after the exclusion, yet the guard of line 71 lets it through, the setters run and a
  timer is scheduled, so the controller state is not what it was; a highlight set that was
  not empty is emptied.
\<close>

theorem identity_only_suggestion_changes_state:
  "Object_keys (identity_only_suggestion\<lparr>opt_employeeName := None, opt_employeeId := None\<rparr>) = []
   \<and> handleAiParseSuccess identity_only_suggestion (initialState ''2024-07-10'')
       \<noteq> initialState ''2024-07-10''
   \<and> pendingTimeouts (handleAiParseSuccess identity_only_suggestion (initialState ''2024-07-10''))
       = [2500]
   \<and> updatedFields (handleAiParseSuccess identity_only_suggestion
         ((initialState ''2024-07-10'')\<lparr>updatedFields := {''amount''}\<rparr>)) = {}"
  by (simp add: identity_only_suggestion_def empty_partial_def handleAiParseSuccess_def
      Object_keys_def initialState_def Let_def)

text \<open>
  C5, amended. Merging the fully empty suggestion is a no-op: the controller state,
  highlight set and pending timers included, stays exactly as it was. Merging a
  suggestion that is not empty but holds identity fields only leaves the record equal to
  what it was and empties the highlight set, and it schedules a highlight-clear timer.
\<close>

theorem handleAiParseSuccess_empty_suggestion:
  "(Object_keys s = [] \<longrightarrow> handleAiParseSuccess s st = st)
   \<and> (Object_keys s \<noteq> [] \<longrightarrow>
        Object_keys (s\<lparr>opt_employeeName := None, opt_employeeId := None\<rparr>) = [] \<longrightarrow>
        handleAiParseSuccess s st
          = st\<lparr>updatedFields := {}, pendingTimeouts := pendingTimeouts st @ [2500]\<rparr>)"
proof -
  have empty: "handleAiParseSuccess s st = st" if "Object_keys s = []"
    using that by (simp add: handleAiParseSuccess_def)
  have idonly: "handleAiParseSuccess s st
          = st\<lparr>updatedFields := {}, pendingTimeouts := pendingTimeouts st @ [2500]\<rparr>"
    if "Object_keys s \<noteq> []"
      and rest: "Object_keys (s\<lparr>opt_employeeName := None, opt_employeeId := None\<rparr>) = []"
  proof -
    have "spread (expenseData st) (s\<lparr>opt_employeeName := None, opt_employeeId := None\<rparr>)
            = expenseData st"
      using rest by (rule spread_no_keys)
    with that show ?thesis
      by (simp add: handleAiParseSuccess_def Let_def)
  qed
  from empty idonly show ?thesis by blast
qed

theorem handleAiParseSuccess_empty_suggestion_witness:
  "Object_keys empty_partial = []
   \<and> handleAiParseSuccess empty_partial
        ((initialState ''2024-07-10'')\<lparr>updatedFields := {''amount''}\<rparr>)
       = (initialState ''2024-07-10'')\<lparr>updatedFields := {''amount''}\<rparr>
   \<and> Object_keys identity_only_suggestion \<noteq> []
   \<and> handleAiParseSuccess identity_only_suggestion (initialState ''2024-07-10'')
       = (initialState ''2024-07-10'')\<lparr>updatedFields := {}, pendingTimeouts := [2500]\<rparr>"
  using handleAiParseSuccess_empty_suggestion
          [of empty_partial "(initialState ''2024-07-10'')\<lparr>updatedFields := {''amount''}\<rparr>"]
        handleAiParseSuccess_empty_suggestion
          [of identity_only_suggestion "initialState ''2024-07-10''"]
  by (simp add: identity_only_suggestion_def empty_partial_def Object_keys_def initialState_def)


section \<open>Properties of the extraction adapter\<close>

lemma category_nonempty: "s \<in> set EXPENSE_CATEGORIES \<Longrightarrow> s \<noteq> ''''"
  by (auto simp: EXPENSE_CATEGORIES_def FOOD_EXPENSE_def TRAVEL_def ACCOMMODATION_def
      OTHER_OFFICE_EXPENSES_def)

lemma category_step:
  "opt_expenseCategory r = None \<Longrightarrow>
   (if truthy v \<and> EXPENSE_CATEGORIES_includes v
    then r\<lparr>opt_expenseCategory := typeof_string v\<rparr> else r)
   = r\<lparr>opt_expenseCategory :=
        (case v of
           Some (JString s) \<Rightarrow> if s \<in> set EXPENSE_CATEGORIES then Some s else None
         | _ \<Rightarrow> None)\<rparr>"
  by (cases v rule: typeof_string.cases)
     (auto simp: EXPENSE_CATEGORIES_includes_def dest: category_nonempty)

lemma project_step:
  "opt_project r = None \<Longrightarrow>
   (case v of None \<Rightarrow> r | Some s \<Rightarrow> r\<lparr>opt_project := Some (g s)\<rparr>)
   = r\<lparr>opt_project := map_option g v\<rparr>"
  by (cases v) simp_all

lemma expenseTitle_step:
  "opt_expenseTitle r = None \<Longrightarrow>
   (case v of None \<Rightarrow> r | Some s \<Rightarrow> r\<lparr>opt_expenseTitle := Some (g s)\<rparr>)
   = r\<lparr>opt_expenseTitle := map_option g v\<rparr>"
  by (cases v) simp_all

lemma expenseDate_step:
  "opt_expenseDate r = None \<Longrightarrow>
   (case v of None \<Rightarrow> r | Some s \<Rightarrow> r\<lparr>opt_expenseDate := Some (g s)\<rparr>)
   = r\<lparr>opt_expenseDate := map_option g v\<rparr>"
  by (cases v) simp_all

lemma currency_step:
  "opt_currency r = None \<Longrightarrow>
   (case v of None \<Rightarrow> r | Some s \<Rightarrow> r\<lparr>opt_currency := Some (g s)\<rparr>)
   = r\<lparr>opt_currency := map_option g v\<rparr>"
  by (cases v) simp_all

lemma amount_step:
  "opt_amount r = None \<Longrightarrow>
   (case v of None \<Rightarrow> r | Some s \<Rightarrow> r\<lparr>opt_amount := Some (g s)\<rparr>)
   = r\<lparr>opt_amount := map_option g v\<rparr>"
  by (cases v) simp_all

lemma comment_step:
  "opt_comment r = None \<Longrightarrow>
   (case v of None \<Rightarrow> r | Some s \<Rightarrow> r\<lparr>opt_comment := Some (g s)\<rparr>)
   = r\<lparr>opt_comment := map_option g v\<rparr>"
  by (cases v) simp_all

lemmas sanitize_steps =
  category_step project_step expenseTitle_step expenseDate_step currency_step amount_step
  comment_step

text \<open>The seven conditional assignments of lines 88-96, collected into one record.\<close>

lemma sanitize_closed_form:
  "parsed \<noteq> JNull \<Longrightarrow>
   sanitize js parsed =
     Some \<lparr> opt_expenseCategory =
              (case property parsed ''expenseCategory'' of
                 Some (JString s) \<Rightarrow> if s \<in> set EXPENSE_CATEGORIES then Some s else None
               | _ \<Rightarrow> None),
            opt_project = typeof_string (property parsed ''project''),
            opt_expenseTitle = typeof_string (property parsed ''expenseTitle''),
            opt_expenseDate =
              map_option split_T_0 (typeof_string (property parsed ''expenseDate'')),
            opt_currency =
              map_option (toUpperCase js) (typeof_string (property parsed ''currency'')),
            opt_amount = map_option AmountNumber (typeof_number (property parsed ''amount'')),
            opt_comment = typeof_string (property parsed ''comment''),
            opt_employeeName = None,
            opt_employeeId = None \<rparr>"
  by (simp add: sanitize_def empty_partial_def Let_def sanitize_steps option.map_ident
      del: truthy.simps)

lemma sanitize_JNull: "sanitize js JNull = None"
  by (simp add: sanitize_def)

lemma parseJsonResponse_cases:
  "parseJsonResponse js JSON_parse response =
     (case response_text response of
        None \<Rightarrow> Inl unparseable
      | Some t \<Rightarrow>
          (case JSON_parse (strip_fence js (trim js t)) of
             None \<Rightarrow> Inl unparseable
           | Some parsed \<Rightarrow>
               (case sanitize js parsed of
                  None \<Rightarrow> Inl unparseable
                | Some d \<Rightarrow> Inr d)))"
  by (simp add: parseJsonResponse_def Let_def split: option.split)













text \<open>
  C6. The adapter returns a date that is not in the form \<open>YYYY-MM-DD\<close>: a response whose
  \<open>expenseDate\<close> is the string \<open>10/07/2024\<close> comes back with that string unchanged.
\<close>

theorem slash_date_not_normalised:
  "parseJsonResponse js (\<lambda>jsonString. Some slash_date_response)
      \<lparr>response_text = Some ''(the response text)''\<rparr>
     = Inr (empty_partial\<lparr>opt_expenseDate := Some ''10/07/2024''\<rparr>)
   \<and> \<not> is_YYYY_MM_DD ''10/07/2024''"
  by (simp add: parseJsonResponse_cases sanitize_closed_form slash_date_response_def
      empty_partial_def split_T_0_takeWhile is_YYYY_MM_DD_def)

text \<open>
  What the adapter does guarantee for the fields it returns: a category is one of the
  four enumerated strings, a date holds no \<open>T\<close>, a currency is a result of
  \<open>toUpperCase\<close>, and the identity fields are never present.
\<close>

lemma split_T_0_no_T: "CHR ''T'' \<notin> set (split_T_0 s)"
  by (auto simp: split_T_0_takeWhile dest: set_takeWhileD)

lemma parseJsonResponse_domain:
  assumes "parseJsonResponse js JSON_parse response = Inr d"
  shows "\<forall>c. opt_expenseCategory d = Some c \<longrightarrow> c \<in> set EXPENSE_CATEGORIES"
    and "\<forall>x. opt_expenseDate d = Some x \<longrightarrow> CHR ''T'' \<notin> set x"
    and "\<forall>x. opt_currency d = Some x \<longrightarrow> (\<exists>s. x = toUpperCase js s)"
    and "opt_employeeName d = None \<and> opt_employeeId d = None"
proof -
  from assms obtain parsed where d: "sanitize js parsed = Some d"
    by (auto simp: parseJsonResponse_cases split: option.splits)
  then have nonnull: "parsed \<noteq> JNull"
    by (auto simp: sanitize_JNull)
  note closed = sanitize_closed_form [OF nonnull, of js, unfolded d]
  show "\<forall>c. opt_expenseCategory d = Some c \<longrightarrow> c \<in> set EXPENSE_CATEGORIES"
    using closed
    by (cases "property parsed ''expenseCategory''" rule: typeof_string.cases)
       (auto split: if_splits)
  show "\<forall>x. opt_expenseDate d = Some x \<longrightarrow> CHR ''T'' \<notin> set x"
    using closed split_T_0_no_T by auto
  show "\<forall>x. opt_currency d = Some x \<longrightarrow> (\<exists>s. x = toUpperCase js s)"
    using closed by auto
  show "opt_employeeName d = None \<and> opt_employeeId d = None"
    using closed by simp
qed

section \<open>Properties of the submission\<close>

text \<open>
  C7. When the webhook URL is the unconfigured placeholder (it contains
  \<open>n8n.example.com\<close>), \<open>submitExpense\<close> fails with the configuration error for every
  record and attachment, and makes no call to \<open>fetch\<close>.
\<close>

theorem submitExpense_placeholder_fails:
  "string_includes webhook_url ''n8n.example.com'' \<Longrightarrow>
   submitExpense b webhook_url data receipt = (Inl not_configured, [])"
  by (simp add: submitExpense_def)

theorem submitExpense_placeholder_fails_witness:
  "string_includes ''https://n8n.example.com/webhook/expenses'' ''n8n.example.com''
   \<and> submitExpense online_browser ''https://n8n.example.com/webhook/expenses''
         (complete_record 600) (Some jpeg_2MB)
       = (Inl not_configured, [])"
  using submitExpense_placeholder_fails
          [of "''https://n8n.example.com/webhook/expenses''" online_browser
              "complete_record 600" "Some jpeg_2MB"]
  by simp

lemma validateForm_message_nonempty: "validateForm d f \<noteq> Some ''''"
  by (simp add: validateForm_def Let_def)

text \<open>
  C8. When validation fails, \<open>handleSubmit\<close> makes no call to \<open>fetch\<close> and commits a
  single state, whose status is ERROR and whose error is the validation message; a state
  with status SUBMITTING is committed exactly when validation passes.
\<close>

theorem handleSubmit_validation_short_circuit:
  "(validateForm (expenseData st) (receiptFile st) = Some m \<longrightarrow>
      handleSubmit b webhook_url today st
        = ([st\<lparr>submissionError := Some m, submissionStatus := ERROR\<rparr>], []))
   \<and> (SUBMITTING \<in> submissionStatus ` set (fst (handleSubmit b webhook_url today st))
        \<longleftrightarrow> validateForm (expenseData st) (receiptFile st) = None)"
proof -
  have invalid: "handleSubmit b webhook_url today st
        = ([st\<lparr>submissionError := Some m, submissionStatus := ERROR\<rparr>], [])"
    if "validateForm (expenseData st) (receiptFile st) = Some m"
    using that validateForm_message_nonempty [of "expenseData st" "receiptFile st"]
    by (simp add: handleSubmit_def Let_def)
  have valid: "SUBMITTING \<in> submissionStatus ` set (fst (handleSubmit b webhook_url today st))"
    if "validateForm (expenseData st) (receiptFile st) = None"
    using that
    by (simp add: handleSubmit_def Let_def split: prod.split sum.split error.split)
  have "SUBMITTING \<notin> submissionStatus ` set (fst (handleSubmit b webhook_url today st))"
    if "validateForm (expenseData st) (receiptFile st) = Some m'" for m'
    using that validateForm_message_nonempty [of "expenseData st" "receiptFile st"]
    by (simp add: handleSubmit_def Let_def)
  with invalid valid show ?thesis
    by (cases "validateForm (expenseData st) (receiptFile st)") auto
qed

theorem handleSubmit_validation_short_circuit_witness:
  "validateForm (expenseData (initialState ''2024-07-10'')) (receiptFile (initialState ''2024-07-10''))
     = Some (''Please complete all required fields: Expense Category, Project / Cost Center, ''
             @ ''Expense Title, Amount, Comment.'')
   \<and> handleSubmit online_browser N8N_WEBHOOK_URL ''2024-07-10'' (initialState ''2024-07-10'')
     = ([(initialState ''2024-07-10'')
           \<lparr>submissionError :=
              Some (''Please complete all required fields: Expense Category, Project / Cost Center, ''
                    @ ''Expense Title, Amount, Comment.''),
            submissionStatus := ERROR\<rparr>], [])"
  using handleSubmit_validation_short_circuit
          [of "initialState ''2024-07-10''"
              "''Please complete all required fields: Expense Category, Project / Cost Center, ''
               @ ''Expense Title, Amount, Comment.''"
              online_browser N8N_WEBHOOK_URL "''2024-07-10''"]
  by (simp add: initialState_def emptyExpenseState_def validateForm_def
      validateForm_errors_eq_spec violations_spec_def presence_checks_def)

section \<open>Properties of the attachment state\<close>






end
